theory Spec2Isabelle
  imports Complex_Main "HOL-Library.Sublist"
begin

section \<open>The gateway client (src/client/gateway.js)\<close>

text \<open>
  The client keeps one table, \<open>handler_map\<close>, from property keys to callbacks, sends
  request envelopes over a websocket and routes every inbound frame to the callback
  stored under the frame's key. The embedding follows the source statement by
  statement. What the source calls but does not define is handled as follows:
  \<^item> \<open>JSON.parse\<close> and \<open>JSON.stringify\<close> are parameters (the record \<open>runtime\<close>);
  \<open>JSON.parse\<close> returns \<open>None\<close> where the real one throws a SyntaxError;
  \<^item> \<open>Math.random()\<close> is an argument \<open>u\<close> of every operation that draws an id,
  a rational with \<open>0 \<le> u < 1\<close>;
  \<^item> \<open>websocket.send\<close>, \<open>console.log\<close>, the overridable hook \<open>on_message\<close> and
  the functions supplied by the caller are recorded as events of a trace, in the order
  they happen; each is taken to return normally and to leave the client alone;
  \<^item> the coercions of the language (property keys, \<open>==\<close>, \<open>+\<close> on strings,
  truthiness, member access on a primitive) are written out for parsed JSON.
  Numbers are integers: fractions, \<open>NaN\<close> and magnitudes from \<open>10^21\<close> on (where
  JavaScript prints an exponent) are outside the model. A string is the list of its
  code units.

  \<open>_on_message\<close> assigns \<open>response\<close>, \<open>id\<close> and \<open>handler\<close> without declaring
  them, which makes them globals of a script that is not in strict mode; nothing reads
  them outside the call, and the model keeps them local. The constructor, \<open>on_close\<close>
  and \<open>on_error\<close> only wire the websocket's events and are not modelled.
\<close>

subsection \<open>Values\<close>

datatype json =
    JNull
  | JBool bool
  | JNum int
  | JStr string
  | JArr "json list"
  | JObj "(string \<times> json) list"

text \<open>
  A value handed over by the caller or passed to a callback: \<open>undefined\<close>, a piece of
  data, or a function (known by a name only).
\<close>

datatype val = Undefined | Data json | Func string

datatype error =
    ParameterIsNotAFunction
  | SyntaxError
  | TypeError

text \<open>\<open>ParameterIsNotAFunction\<close> is the string \<open>_check_function\<close> throws.\<close>

fun of_json_opt :: "json option \<Rightarrow> val" where
  "of_json_opt None = Undefined"
| "of_json_opt (Some j) = Data j"

text \<open>Truthiness, as \<open>if (handle_update)\<close> and \<open>!this.handler_map[id]\<close> test it.\<close>

fun truthy :: "val \<Rightarrow> bool" where
  "truthy Undefined = False"
| "truthy (Data JNull) = False"
| "truthy (Data (JBool b)) = b"
| "truthy (Data (JNum n)) = (n \<noteq> 0)"
| "truthy (Data (JStr s)) = (s \<noteq> [])"
| "truthy (Data (JArr xs)) = True"
| "truthy (Data (JObj kvs)) = True"
| "truthy (Func f) = True"

text \<open>\<open>typeof func === 'function'\<close>.\<close>

fun typeof_function :: "val \<Rightarrow> bool" where
  "typeof_function (Func f) = True"
| "typeof_function _ = False"

subsection \<open>Numbers as property keys\<close>

definition digit_char :: "nat \<Rightarrow> char" where
  "digit_char d = ''0123456789'' ! d"

fun show_nat :: "nat \<Rightarrow> string" where
  "show_nat n = (if n < 10 then [digit_char n] else show_nat (n div 10) @ [digit_char (n mod 10)])"

declare show_nat.simps [simp del]

definition number_to_string :: "int \<Rightarrow> string" where
  "number_to_string n = (if n < 0 then CHR ''-'' # show_nat (nat (- n)) else show_nat (nat n))"

subsection \<open>Coercions on parsed JSON\<close>

text \<open>
  \<open>ToString\<close> of a parsed value. An array is joined with commas, \<open>null\<close> elements
  giving the empty string. An object prints as \<open>[object Object]\<close> through the inherited
  \<open>toString\<close>; when the frame gave it an own property \<open>toString\<close> (never callable,
  coming from JSON) the conversion to a primitive throws a TypeError. The same holds
  for the conversion \<open>+\<close> and \<open>==\<close> use.
\<close>

fun js_to_string :: "json \<Rightarrow> error + string"
  and join_elems :: "json list \<Rightarrow> error + string" where
  "js_to_string JNull = Inr ''null''"
| "js_to_string (JBool b) = Inr (if b then ''true'' else ''false'')"
| "js_to_string (JNum n) = Inr (number_to_string n)"
| "js_to_string (JStr s) = Inr s"
| "js_to_string (JArr xs) = join_elems xs"
| "js_to_string (JObj kvs) =
     (if ''toString'' \<in> fst ` set kvs then Inl TypeError else Inr ''[object Object]'')"
| "join_elems [] = Inr ''''"
| "join_elems (x # xs) =
     (case (if x = JNull then Inr '''' else js_to_string x) of
        Inl e \<Rightarrow> Inl e
      | Inr s \<Rightarrow>
          (if xs = [] then Inr s
           else (case join_elems xs of Inl e \<Rightarrow> Inl e | Inr t \<Rightarrow> Inr (s @ '','' @ t))))"

text \<open>The property key of \<open>this.handler_map[id]\<close>, for \<open>id\<close> read from a frame.\<close>

fun property_key :: "json option \<Rightarrow> error + string" where
  "property_key None = Inr ''undefined''"
| "property_key (Some j) = js_to_string j"

text \<open>\<open>response.name == "update"\<close>: loose equality with a string.\<close>

fun loose_eq_update :: "json option \<Rightarrow> error + bool" where
  "loose_eq_update None = Inr False"
| "loose_eq_update (Some JNull) = Inr False"
| "loose_eq_update (Some (JBool b)) = Inr False"
| "loose_eq_update (Some (JNum n)) = Inr False"
| "loose_eq_update (Some (JStr s)) = Inr (s = ''update'')"
| "loose_eq_update (Some j) =
     (case js_to_string j of Inl e \<Rightarrow> Inl e | Inr s \<Rightarrow> Inr (s = ''update''))"

text \<open>
  Member access by one of the names the source reads (\<open>id\<close>, \<open>name\<close>, \<open>address\<close>,
  \<open>error\<close>, \<open>result\<close>): none of them is defined on a prototype, so anything but an
  own property of an object reads as \<open>undefined\<close>, and reading from \<open>null\<close> throws.
\<close>

fun get_named :: "json \<Rightarrow> string \<Rightarrow> error + json option" where
  "get_named JNull k = Inl TypeError"
| "get_named (JObj kvs) k = Inr (map_of kvs k)"
| "get_named _ k = Inr None"

text \<open>\<open>x[0]\<close>, for \<open>x = response["result"]\<close>.\<close>

fun index0 :: "json option \<Rightarrow> error + json option" where
  "index0 None = Inl TypeError"
| "index0 (Some JNull) = Inl TypeError"
| "index0 (Some (JArr xs)) = Inr (case xs of [] \<Rightarrow> None | x # _ \<Rightarrow> Some x)"
| "index0 (Some (JStr s)) = Inr (case s of [] \<Rightarrow> None | ch # _ \<Rightarrow> Some (JStr [ch]))"
| "index0 (Some (JObj kvs)) = Inr (map_of kvs ''0'')"
| "index0 (Some _) = Inr None"

subsection \<open>The client\<close>

text \<open>
  What \<open>handler_map\<close> holds: a value stored as it came (the \<open>handler\<close> argument of
  \<open>make_request\<close>, or \<open>handle_update\<close>), or one of the two closures the source
  builds: the adapter of the \<open>fetch_*\<close> wrappers, and the closure of \<open>subscribe\<close> and
  \<open>renew\<close> with the \<open>address\<close>, \<open>handle_fetch\<close> and \<open>handle_update\<close> it captures.
\<close>

datatype handler =
    Direct val
  | FetchAdapter val
  | AckAdapter string val val

datatype event =
    Observed string
  | Sent string
  | Called string "val list"
  | Logged string

record client =
  handler_map :: "string \<rightharpoonup> handler"
  trace :: "event list"

record request =
  req_id :: int
  command :: string
  params :: "val list"

record runtime =
  json_parse :: "string \<Rightarrow> json option"
  json_stringify :: "request \<Rightarrow> string"

text \<open>
  How a call ends: it returns, it throws, or control reaches a member of
  \<open>Object.prototype\<close> that the lookup in \<open>handler_map\<close> found by inheritance;
  what that member does with the frame is the runtime's business.
\<close>

datatype outcome =
    Returned client
  | Threw error client
  | Builtin string client

fun state_of :: "outcome \<Rightarrow> client" where
  "state_of (Returned c) = c"
| "state_of (Threw e c) = c"
| "state_of (Builtin p c) = c"

fun completes_normally :: "outcome \<Rightarrow> bool" where
  "completes_normally (Returned c) = True"
| "completes_normally _ = False"

text \<open>The client as the constructor leaves it: \<open>this.handler_map = {}\<close>.\<close>

definition init_client :: client where
  "init_client = \<lparr>handler_map = Map.empty, trace = []\<rparr>"

definition emit :: "event \<Rightarrow> client \<Rightarrow> client" where
  "emit ev c = c\<lparr>trace := trace c @ [ev]\<rparr>"

text \<open>\<open>GatewayClient._random_integer\<close>, from the value \<open>u\<close> of \<open>Math.random()\<close>.\<close>

definition random_integer :: "rat \<Rightarrow> int" where
  "random_integer u = \<lfloor>u * 4294967296\<rfloor>"

text \<open>\<open>GatewayClient._check_function\<close> on what \<open>make_request\<close> receives.\<close>

fun is_function :: "handler \<Rightarrow> bool" where
  "is_function (Direct v) = typeof_function v"
| "is_function (FetchAdapter hf) = True"
| "is_function (AckAdapter a hf hu) = True"

definition check_function :: "handler \<Rightarrow> error + unit" where
  "check_function func = (if \<not> is_function func then Inl ParameterIsNotAFunction else Inr ())"

subsection \<open>Dispatch\<close>

text \<open>
  The two statements of \<open>make_request\<close> that touch the client, in the order the
  source has them: \<open>this.websocket.send(message)\<close>, then
  \<open>this.handler_map[id] = handler\<close>.
\<close>

datatype stmt = WsSend string | SetHandler string handler

fun exec :: "stmt \<Rightarrow> client \<Rightarrow> client" where
  "exec (WsSend message) c = emit (Sent message) c"
| "exec (SetHandler k h) c = c\<lparr>handler_map := (handler_map c)(k \<mapsto> h)\<rparr>"

text \<open>The states a statement list goes through, the first being the one it starts in.\<close>

fun run_states :: "stmt list \<Rightarrow> client \<Rightarrow> client list" where
  "run_states [] c = [c]"
| "run_states (s # ss) c = c # run_states ss (exec s c)"

definition run_stmts :: "stmt list \<Rightarrow> client \<Rightarrow> client" where
  "run_stmts ss c = last (run_states ss c)"

definition make_request_body ::
  "runtime \<Rightarrow> string \<Rightarrow> val list \<Rightarrow> handler \<Rightarrow> rat \<Rightarrow> stmt list" where
  "make_request_body rt cmd ps h u =
     (let ident = random_integer u;
          request = \<lparr>req_id = ident, command = cmd, params = ps\<rparr>;
          message = json_stringify rt request
      in [WsSend message, SetHandler (number_to_string ident) h])"

definition make_request ::
  "runtime \<Rightarrow> string \<Rightarrow> val list \<Rightarrow> handler \<Rightarrow> rat \<Rightarrow> client \<Rightarrow> outcome" where
  "make_request rt cmd ps h u c =
     (case check_function h of
        Inl e \<Rightarrow> Threw e c
      | Inr _ \<Rightarrow> Returned (run_stmts (make_request_body rt cmd ps h u) c))"

text \<open>
  The wrappers. Each but \<open>subscribe\<close> and \<open>renew\<close> starts with
  \<open>GatewayClient._check_function(handle_fetch)\<close>.
\<close>

definition fetch_with ::
  "runtime \<Rightarrow> string \<Rightarrow> val list \<Rightarrow> val \<Rightarrow> rat \<Rightarrow> client \<Rightarrow> outcome" where
  "fetch_with rt cmd ps handle_fetch u c =
     (case check_function (Direct handle_fetch) of
        Inl e \<Rightarrow> Threw e c
      | Inr _ \<Rightarrow> make_request rt cmd ps (FetchAdapter handle_fetch) u c)"

definition fetch_last_height :: "runtime \<Rightarrow> val \<Rightarrow> rat \<Rightarrow> client \<Rightarrow> outcome" where
  "fetch_last_height rt handle_fetch = fetch_with rt ''fetch_last_height'' [] handle_fetch"

definition fetch_transaction :: "runtime \<Rightarrow> val \<Rightarrow> val \<Rightarrow> rat \<Rightarrow> client \<Rightarrow> outcome" where
  "fetch_transaction rt tx_hash handle_fetch =
     fetch_with rt ''fetch_transaction'' [tx_hash] handle_fetch"

definition fetch_history :: "runtime \<Rightarrow> val \<Rightarrow> val \<Rightarrow> rat \<Rightarrow> client \<Rightarrow> outcome" where
  "fetch_history rt address handle_fetch =
     fetch_with rt ''fetch_history'' [address] handle_fetch"

definition fetch_block_header :: "runtime \<Rightarrow> val \<Rightarrow> val \<Rightarrow> rat \<Rightarrow> client \<Rightarrow> outcome" where
  "fetch_block_header rt index handle_fetch =
     fetch_with rt ''fetch_block_header'' [index] handle_fetch"

definition fetch_block_transaction_hashes ::
  "runtime \<Rightarrow> val \<Rightarrow> val \<Rightarrow> rat \<Rightarrow> client \<Rightarrow> outcome" where
  "fetch_block_transaction_hashes rt index handle_fetch =
     fetch_with rt ''fetch_block_transaction_hashes'' [index] handle_fetch"

definition fetch_spend :: "runtime \<Rightarrow> val \<Rightarrow> val \<Rightarrow> rat \<Rightarrow> client \<Rightarrow> outcome" where
  "fetch_spend rt outpoint handle_fetch =
     fetch_with rt ''fetch_spend'' [outpoint] handle_fetch"

text \<open>
  \<open>subscribe\<close> and \<open>renew\<close> take the address as a string, the type their
  documentation gives it; \<open>"update." + address\<close> is then plain concatenation.
\<close>

definition topic_key :: "string \<Rightarrow> string" where
  "topic_key address = ''update.'' @ address"

definition subscribe :: "runtime \<Rightarrow> string \<Rightarrow> val \<Rightarrow> val \<Rightarrow> rat \<Rightarrow> client \<Rightarrow> outcome" where
  "subscribe rt address handle_fetch handle_update =
     make_request rt ''subscribe_address'' [Data (JStr address)]
       (AckAdapter address handle_fetch handle_update)"

definition renew :: "runtime \<Rightarrow> string \<Rightarrow> val \<Rightarrow> val \<Rightarrow> rat \<Rightarrow> client \<Rightarrow> outcome" where
  "renew rt address handle_fetch handle_update =
     make_request rt ''renew_address'' [Data (JStr address)]
       (AckAdapter address handle_fetch handle_update)"

subsection \<open>Calling what the table holds\<close>

text \<open>A call \<open>f(args)\<close> of a caller's value: a TypeError unless it is a function.\<close>

fun call_value :: "val \<Rightarrow> val list \<Rightarrow> client \<Rightarrow> outcome" where
  "call_value (Func f) args c = Returned (emit (Called f args) c)"
| "call_value _ args c = Threw TypeError c"

text \<open>
  The arguments \<open>response["error"], response["result"][0]\<close>, evaluated before the
  call is made.
\<close>

definition unpack :: "json \<Rightarrow> error + (val \<times> val)" where
  "unpack response =
     (case get_named response ''error'' of
        Inl e \<Rightarrow> Inl e
      | Inr err \<Rightarrow>
          (case get_named response ''result'' of
             Inl e \<Rightarrow> Inl e
           | Inr res \<Rightarrow>
               (case index0 res of
                  Inl e \<Rightarrow> Inl e
                | Inr r0 \<Rightarrow> Inr (of_json_opt err, of_json_opt r0))))"

fun invoke :: "handler \<Rightarrow> json \<Rightarrow> client \<Rightarrow> outcome" where
  "invoke (Direct v) response c = call_value v [Data response] c"
| "invoke (FetchAdapter handle_fetch) response c =
     (case unpack response of
        Inl e \<Rightarrow> Threw e c
      | Inr (err, r0) \<Rightarrow> call_value handle_fetch [err, r0] c)"
| "invoke (AckAdapter address handle_fetch handle_update) response c =
     (case unpack response of
        Inl e \<Rightarrow> Threw e c
      | Inr (err, r0) \<Rightarrow>
          (case call_value handle_fetch [err, r0] c of
             Returned c1 \<Rightarrow>
               (if truthy handle_update
                then Returned (c1\<lparr>handler_map :=
                       (handler_map c1)(topic_key address \<mapsto> Direct handle_update)\<rparr>)
                else Returned c1)
           | other \<Rightarrow> other))"

subsection \<open>Routing\<close>

text \<open>
  \<open>handler_map\<close> is created as \<open>{}\<close>, so a lookup that finds no own property goes
  on to \<open>Object.prototype\<close>. Its members are functions, but \<open>__proto__\<close>, which
  reads as the prototype object itself.
\<close>

definition object_prototype_keys :: "string list" where
  "object_prototype_keys =
     [''constructor'', ''hasOwnProperty'', ''isPrototypeOf'', ''propertyIsEnumerable'',
      ''toLocaleString'', ''toString'', ''valueOf'', ''__proto__'',
      ''__defineGetter__'', ''__defineSetter__'', ''__lookupGetter__'', ''__lookupSetter__'']"

datatype slot = Own handler | Proto string | Absent

definition lookup :: "(string \<rightharpoonup> handler) \<Rightarrow> string \<Rightarrow> slot" where
  "lookup m k =
     (case m k of
        Some h \<Rightarrow> Own h
      | None \<Rightarrow> if k \<in> set object_prototype_keys then Proto k else Absent)"

fun truthy_handler :: "handler \<Rightarrow> bool" where
  "truthy_handler (Direct v) = truthy v"
| "truthy_handler (FetchAdapter hf) = True"
| "truthy_handler (AckAdapter a hf hu) = True"

text \<open>
  The key of a parsed frame: \<open>id = response.id\<close>, replaced by
  \<open>"update." + response.address\<close> when \<open>response.name == "update"\<close>, and turned
  into a property key by \<open>this.handler_map[id]\<close>. Every step can throw a TypeError
  and none has an effect.
\<close>

definition correlation_key :: "json \<Rightarrow> error + string" where
  "correlation_key response =
     (case get_named response ''id'' of
        Inl e \<Rightarrow> Inl e
      | Inr id0 \<Rightarrow>
          (case get_named response ''name'' of
             Inl e \<Rightarrow> Inl e
           | Inr nm \<Rightarrow>
               (case loose_eq_update nm of
                  Inl e \<Rightarrow> Inl e
                | Inr is_update \<Rightarrow>
                    (if is_update then
                       (case get_named response ''address'' of
                          Inl e \<Rightarrow> Inl e
                        | Inr a \<Rightarrow>
                            (case property_key a of
                               Inl e \<Rightarrow> Inl e
                             | Inr s \<Rightarrow> Inr (''update.'' @ s)))
                     else property_key id0))))"

text \<open>The hook \<open>on_message\<close>, a no-op unless overridden: the call is recorded.\<close>

definition on_message :: "string \<Rightarrow> client \<Rightarrow> client" where
  "on_message data c = emit (Observed data) c"

definition console_log :: "string \<Rightarrow> client \<Rightarrow> client" where
  "console_log line c = emit (Logged line) c"

text \<open>\<open>GatewayClient.prototype._on_message\<close>, for an event with \<open>evt.data = data\<close>.\<close>

definition private_on_message :: "runtime \<Rightarrow> string \<Rightarrow> client \<Rightarrow> outcome" where
  "private_on_message rt data c =
     (let c1 = on_message data c in
      case json_parse rt data of
        None \<Rightarrow> Threw SyntaxError c1
      | Some response \<Rightarrow>
          (case correlation_key response of
             Inl e \<Rightarrow> Threw e c1
           | Inr k \<Rightarrow>
               (case lookup (handler_map c1) k of
                  Absent \<Rightarrow> Returned (console_log ''Handler not found'' c1)
                | Proto p \<Rightarrow> if p = ''__proto__'' then Threw TypeError c1 else Builtin p c1
                | Own h \<Rightarrow>
                    if \<not> truthy_handler h
                    then Returned (console_log ''Handler not found'' c1)
                    else invoke h response c1)))"

subsection \<open>Runs of the client\<close>

datatype call =
    MakeRequest string "val list" val rat
  | FetchLastHeight val rat
  | FetchTransaction val val rat
  | FetchHistory val val rat
  | Subscribe string val val rat
  | FetchBlockHeader val val rat
  | FetchBlockTransactionHashes val val rat
  | FetchSpend val val rat
  | Renew string val val rat
  | Frame string

fun step :: "runtime \<Rightarrow> call \<Rightarrow> client \<Rightarrow> outcome" where
  "step rt (MakeRequest cmd ps h u) c = make_request rt cmd ps (Direct h) u c"
| "step rt (FetchLastHeight hf u) c = fetch_last_height rt hf u c"
| "step rt (FetchTransaction x hf u) c = fetch_transaction rt x hf u c"
| "step rt (FetchHistory x hf u) c = fetch_history rt x hf u c"
| "step rt (Subscribe a hf hu u) c = subscribe rt a hf hu u c"
| "step rt (FetchBlockHeader x hf u) c = fetch_block_header rt x hf u c"
| "step rt (FetchBlockTransactionHashes x hf u) c = fetch_block_transaction_hashes rt x hf u c"
| "step rt (FetchSpend x hf u) c = fetch_spend rt x hf u c"
| "step rt (Renew a hf hu u) c = renew rt a hf hu u c"
| "step rt (Frame data) c = private_on_message rt data c"

text \<open>
  A run: the calls of the caller and the frames of the transport, one after the other
  on the single event loop; a call that throws leaves the client as it stood then.
\<close>

fun run :: "runtime \<Rightarrow> call list \<Rightarrow> client \<Rightarrow> client" where
  "run rt [] c = c"
| "run rt (x # xs) c = run rt xs (state_of (step rt x c))"

text \<open>The draw of a call, where it makes one, is a value of \<open>Math.random()\<close>.\<close>

fun draw_of :: "call \<Rightarrow> rat option" where
  "draw_of (MakeRequest cmd ps h u) = Some u"
| "draw_of (FetchLastHeight hf u) = Some u"
| "draw_of (FetchTransaction x hf u) = Some u"
| "draw_of (FetchHistory x hf u) = Some u"
| "draw_of (Subscribe a hf hu u) = Some u"
| "draw_of (FetchBlockHeader x hf u) = Some u"
| "draw_of (FetchBlockTransactionHashes x hf u) = Some u"
| "draw_of (FetchSpend x hf u) = Some u"
| "draw_of (Renew a hf hu u) = Some u"
| "draw_of (Frame data) = None"

definition unit_draw :: "rat \<Rightarrow> bool" where
  "unit_draw u = (0 \<le> u \<and> u < 1)"

fun draws_ok :: "call list \<Rightarrow> bool" where
  "draws_ok [] = True"
| "draws_ok (x # xs) =
     ((case draw_of x of None \<Rightarrow> True | Some u \<Rightarrow> unit_draw u) \<and> draws_ok xs)"

subsection \<open>Request keys and topic keys\<close>

text \<open>
  A request key is the decimal numeral of an integer in \<open>[0, 2^32)\<close>, the range of
  \<open>_random_integer\<close>; a topic key begins with \<open>update.\<close>. An entry is well keyed
  when it is a function under a request key, as \<open>make_request\<close> stores it, or a truthy
  value stored as it came under a topic key, as the closure of \<open>subscribe\<close> and
  \<open>renew\<close> stores \<open>handle_update\<close>.
\<close>

definition digit_val :: "char \<Rightarrow> nat" where
  "digit_val ch = of_char ch - 48"

definition read_nat :: "string \<Rightarrow> nat" where
  "read_nat s = foldl (\<lambda>a ch. 10 * a + digit_val ch) 0 s"

definition is_request_key :: "string \<Rightarrow> bool" where
  "is_request_key k = (read_nat k < 4294967296 \<and> number_to_string (int (read_nat k)) = k)"

fun update_entry :: "handler \<Rightarrow> bool" where
  "update_entry (Direct v) = truthy v"
| "update_entry _ = False"

definition well_keyed :: "string \<Rightarrow> handler \<Rightarrow> bool" where
  "well_keyed k h =
     ((is_request_key k \<and> is_function h) \<or> (prefix ''update.'' k \<and> update_entry h))"

definition keyed_table :: "(string \<rightharpoonup> handler) \<Rightarrow> bool" where
  "keyed_table m = (\<forall>k h. m k = Some h \<longrightarrow> well_keyed k h)"

text \<open>The calls of caller-supplied functions among the events of a trace.\<close>

fun is_call :: "event \<Rightarrow> bool" where
  "is_call (Called f args) = True"
| "is_call _ = False"

definition calls_in :: "event list \<Rightarrow> nat" where
  "calls_in evs = length (filter is_call evs)"

subsection \<open>Scenario frames\<close>

text \<open>
  The frames of the scenarios, and a runtime for them: \<open>scenario_parse\<close> is
  \<open>JSON.parse\<close> on these frames (\<open>frame_malformed\<close> is not JSON), and
  \<open>scenario_stringify\<close> is \<open>JSON.stringify\<close> on envelopes whose command and
  parameters are numbers and strings that need no escaping.
\<close>

definition frame_height_request :: string where
  \<open>frame_height_request = ''{"id":7,"command":"fetch_last_height","params":[]}''\<close>

definition frame_subscribe_request :: string where
  \<open>frame_subscribe_request = ''{"id":8,"command":"subscribe_address","params":["abc"]}''\<close>

definition frame_renew_request :: string where
  \<open>frame_renew_request = ''{"id":8,"command":"renew_address","params":["abc"]}''\<close>

definition frame_height_reply :: string where
  \<open>frame_height_reply = ''{"id":7,"error":null,"result":[12345]}''\<close>

definition frame_no_result :: string where
  \<open>frame_no_result = ''{"id":7,"error":null}''\<close>

definition frame_empty_result :: string where
  \<open>frame_empty_result = ''{"id":7,"error":null,"result":[]}''\<close>

definition frame_ack :: string where
  \<open>frame_ack = ''{"id":8,"error":null,"result":[true]}''\<close>

definition frame_update_abc :: string where
  \<open>frame_update_abc = ''{"name":"update","address":"abc","height":99}''\<close>

definition frame_null :: string where
  \<open>frame_null = ''null''\<close>

definition frame_malformed :: string where
  \<open>frame_malformed = ''{oops''\<close>

definition json_height_reply :: json where
  "json_height_reply =
     JObj [(''id'', JNum 7), (''error'', JNull), (''result'', JArr [JNum 12345])]"

definition json_ack :: json where
  "json_ack = JObj [(''id'', JNum 8), (''error'', JNull), (''result'', JArr [JBool True])]"

definition json_update_abc :: json where
  "json_update_abc =
     JObj [(''name'', JStr ''update''), (''address'', JStr ''abc''), (''height'', JNum 99)]"

definition scenario_frames :: "(string \<times> json) list" where
  "scenario_frames =
     [(frame_height_reply, json_height_reply),
      (frame_no_result, JObj [(''id'', JNum 7), (''error'', JNull)]),
      (frame_empty_result, JObj [(''id'', JNum 7), (''error'', JNull), (''result'', JArr [])]),
      (frame_ack, json_ack),
      (frame_update_abc, json_update_abc),
      (frame_null, JNull)]"

definition scenario_parse :: "string \<Rightarrow> json option" where
  "scenario_parse s = map_of scenario_frames s"

fun param_text :: "val \<Rightarrow> string" where
  "param_text (Data (JStr s)) = CHR 0x22 # s @ [CHR 0x22]"
| "param_text (Data (JNum n)) = number_to_string n"
| "param_text _ = ''null''"

fun params_text :: "val list \<Rightarrow> string" where
  "params_text [] = ''''"
| "params_text [p] = param_text p"
| "params_text (p # ps) = param_text p @ '','' @ params_text ps"

definition scenario_stringify :: "request \<Rightarrow> string" where
  \<open>scenario_stringify r =
     ''{"id":'' @ number_to_string (req_id r) @ '',"command":"'' @ command r @
     ''","params":['' @ params_text (params r) @ '']}''\<close>

definition scenario_rt :: runtime where
  "scenario_rt = \<lparr>json_parse = scenario_parse, json_stringify = scenario_stringify\<rparr>"

definition draw7 :: rat where
  "draw7 = 7 / 4294967296"

definition draw8 :: rat where
  "draw8 = 8 / 4294967296"

definition scenario_calls :: "call list" where
  "scenario_calls =
     [Subscribe ''abc'' (Func ''handle_fetch'') (Func ''handle_update'') draw8,
      Frame frame_ack,
      FetchLastHeight (Func ''handle_height'') draw7]"



section \<open>Properties\<close>

subsection \<open>Decimal numerals\<close>

lemma below_ten:
  "(d::nat) < 10 \<Longrightarrow>
   d = 0 \<or> d = 1 \<or> d = 2 \<or> d = 3 \<or> d = 4 \<or> d = 5 \<or> d = 6 \<or> d = 7 \<or> d = 8 \<or> d = 9"
  by arith

lemma digit_char_is_digit: "d < 10 \<Longrightarrow> digit_char d \<in> set ''0123456789''"
  using below_ten[of d] by (auto simp: digit_char_def)

lemma digit_val_digit_char: "d < 10 \<Longrightarrow> digit_val (digit_char d) = d"
  using below_ten[of d] by (auto simp: digit_char_def digit_val_def)

lemma show_nat_digits: "show_nat n \<noteq> [] \<and> set (show_nat n) \<subseteq> set ''0123456789''"
proof (induction n rule: show_nat.induct)
  case (1 n)
  show ?case
  proof (cases "n < 10")
    case True
    then show ?thesis
      using digit_char_is_digit[of n] by (subst (1 2) show_nat.simps) simp
  next
    case False
    have "n mod 10 < 10" by simp
    then have "digit_char (n mod 10) \<in> set ''0123456789''"
      by (rule digit_char_is_digit)
    with False 1 show ?thesis
      by (subst (1 2) show_nat.simps) simp
  qed
qed

lemma read_nat_snoc: "read_nat (xs @ [ch]) = 10 * read_nat xs + digit_val ch"
  by (simp add: read_nat_def)

lemma read_show_nat: "read_nat (show_nat n) = n"
proof (induction n rule: show_nat.induct)
  case (1 n)
  show ?case
  proof (cases "n < 10")
    case True
    then show ?thesis
      by (subst show_nat.simps) (simp add: read_nat_def digit_val_digit_char)
  next
    case False
    then have "read_nat (show_nat n)
        = 10 * read_nat (show_nat (n div 10)) + digit_val (digit_char (n mod 10))"
      by (subst show_nat.simps) (simp add: read_nat_snoc)
    also have "\<dots> = 10 * (n div 10) + n mod 10"
      using 1 False by (simp add: digit_val_digit_char)
    finally show ?thesis by simp
  qed
qed

lemma show_nat_head: "\<exists>ch cs. show_nat m = ch # cs \<and> ch \<in> set ''0123456789''"
  using show_nat_digits[of m] by (cases "show_nat m") auto

lemma number_to_string_head:
  "\<exists>ch cs. number_to_string n = ch # cs \<and> ch \<in> set ''-0123456789''"
proof (cases "n < 0")
  case True
  then show ?thesis by (simp add: number_to_string_def)
next
  case False
  obtain ch cs where "show_nat (nat n) = ch # cs" and "ch \<in> set ''0123456789''"
    using show_nat_head[of "nat n"] by blast
  with False show ?thesis by (auto simp: number_to_string_def)
qed

subsection \<open>The two key spaces\<close>

lemma number_to_string_not_topic: "\<not> prefix ''update.'' (number_to_string n)"
  using number_to_string_head[of n] by (auto simp: prefix_def)

lemma topic_key_prefix: "prefix ''update.'' (topic_key a)"
  by (simp add: topic_key_def)

lemma random_integer_range:
  assumes "unit_draw u"
  shows "0 \<le> random_integer u \<and> random_integer u < 4294967296"
proof -
  from assms have a: "0 \<le> u * 4294967296" and b: "u * 4294967296 < 4294967296"
    by (simp_all add: unit_draw_def)
  from a have "0 \<le> \<lfloor>u * 4294967296\<rfloor>" by simp
  moreover from b have "\<lfloor>u * 4294967296\<rfloor> < 4294967296"
    by (simp add: floor_less_iff)
  ultimately show ?thesis by (simp add: random_integer_def)
qed

lemma request_key_of_nat: "n < 4294967296 \<Longrightarrow> is_request_key (number_to_string (int n))"
  by (simp add: is_request_key_def number_to_string_def read_show_nat)

lemma request_key_of_draw: "unit_draw u \<Longrightarrow> is_request_key (number_to_string (random_integer u))"
  using random_integer_range[of u] request_key_of_nat[of "nat (random_integer u)"] by auto

lemma request_key_not_topic: "is_request_key k \<Longrightarrow> \<not> prefix ''update.'' k"
  unfolding is_request_key_def using number_to_string_not_topic by metis

subsection \<open>The scenario runtime\<close>

lemmas frame_defs = frame_height_request_def frame_subscribe_request_def
  frame_renew_request_def frame_height_reply_def frame_no_result_def frame_empty_result_def
  frame_ack_def frame_update_abc_def frame_null_def frame_malformed_def

lemmas numeral_defs = number_to_string_def show_nat.simps digit_char_def

lemma scenario_draws:
  "random_integer draw7 = 7" "random_integer draw8 = 8"
  "number_to_string 7 = ''7''" "number_to_string 8 = ''8''"
  "unit_draw draw7" "unit_draw draw8"
  by (simp_all add: draw7_def draw8_def random_integer_def numeral_defs unit_draw_def)

lemma scenario_parsed:
  "json_parse scenario_rt frame_height_reply = Some json_height_reply"
  "json_parse scenario_rt frame_no_result = Some (JObj [(''id'', JNum 7), (''error'', JNull)])"
  "json_parse scenario_rt frame_empty_result
     = Some (JObj [(''id'', JNum 7), (''error'', JNull), (''result'', JArr [])])"
  "json_parse scenario_rt frame_ack = Some json_ack"
  "json_parse scenario_rt frame_update_abc = Some json_update_abc"
  "json_parse scenario_rt frame_null = Some JNull"
  "json_parse scenario_rt frame_malformed = None"
  by (simp_all add: scenario_rt_def scenario_parse_def scenario_frames_def frame_defs)

lemma scenario_sent:
  "json_stringify scenario_rt \<lparr>req_id = 7, command = ''fetch_last_height'', params = []\<rparr>
     = frame_height_request"
  "json_stringify scenario_rt
     \<lparr>req_id = 8, command = ''subscribe_address'', params = [Data (JStr ''abc'')]\<rparr>
     = frame_subscribe_request"
  "json_stringify scenario_rt
     \<lparr>req_id = 8, command = ''renew_address'', params = [Data (JStr ''abc'')]\<rparr>
     = frame_renew_request"
  by (simp_all add: scenario_rt_def scenario_stringify_def numeral_defs frame_defs)

lemma scenario_keys:
  "correlation_key json_height_reply = Inr ''7''"
  "correlation_key json_ack = Inr ''8''"
  "correlation_key json_update_abc = Inr ''update.abc''"
  "correlation_key (JObj [(''id'', JNum 7), (''error'', JNull)]) = Inr ''7''"
  "correlation_key JNull = Inl TypeError"
  by (simp_all add: correlation_key_def json_height_reply_def json_ack_def
      json_update_abc_def scenario_draws)

subsection \<open>Dispatch\<close>

lemma is_function_truthy: "is_function h \<Longrightarrow> truthy_handler h"
proof (cases h)
  case (Direct v)
  assume "is_function h"
  with Direct show ?thesis by (cases v) simp_all
qed simp_all

lemma make_request_ok:
  "is_function h \<Longrightarrow>
   make_request rt cmd ps h u c =
     Returned \<lparr>handler_map = (handler_map c)(number_to_string (random_integer u) \<mapsto> h),
               trace = trace c @ [Sent (json_stringify rt
                 \<lparr>req_id = random_integer u, command = cmd, params = ps\<rparr>)]\<rparr>"
  by (simp add: make_request_def make_request_body_def run_stmts_def check_function_def
      emit_def Let_def)

lemma make_request_rejects:
  "\<not> is_function h \<Longrightarrow> make_request rt cmd ps h u c = Threw ParameterIsNotAFunction c"
  by (simp add: make_request_def check_function_def)

lemma fetch_with_rejects:
  "\<not> typeof_function hf \<Longrightarrow> fetch_with rt cmd ps hf u c = Threw ParameterIsNotAFunction c"
  by (simp add: fetch_with_def check_function_def)

lemma fetch_with_ok:
  "typeof_function hf \<Longrightarrow>
   fetch_with rt cmd ps hf u c = make_request rt cmd ps (FetchAdapter hf) u c"
  by (simp add: fetch_with_def check_function_def)

lemmas wrapper_defs = fetch_last_height_def fetch_transaction_def fetch_history_def
  fetch_block_header_def fetch_block_transaction_hashes_def fetch_spend_def subscribe_def
  renew_def

lemma make_request_topic_unchanged:
  assumes "prefix ''update.'' k"
  shows "handler_map (state_of (make_request rt cmd ps h u c)) k = handler_map c k"
proof (cases "is_function h")
  case True
  from assms have "k \<noteq> number_to_string (random_integer u)"
    using number_to_string_not_topic by blast
  with True show ?thesis by (simp add: make_request_ok)
next
  case False
  then show ?thesis by (simp add: make_request_rejects)
qed



lemma make_request_changes:
  assumes "unit_draw u"
    and "handler_map (state_of (make_request rt cmd ps h u c)) k \<noteq> handler_map c k"
  shows "is_request_key k \<and> is_function h \<and> k = number_to_string (random_integer u)"
proof (cases "is_function h")
  case True
  with assms(2) have "k = number_to_string (random_integer u)"
    by (simp add: make_request_ok split: if_splits)
  with True assms(1) show ?thesis by (simp add: request_key_of_draw)
next
  case False
  with assms(2) show ?thesis by (simp add: make_request_rejects)
qed

subsection \<open>Calls and routing\<close>

lemma call_value_calls:
  "calls_in (trace (state_of (call_value v args c))) \<le> calls_in (trace c) + 1"
  by (cases v) (simp_all add: calls_in_def emit_def)

lemma call_value_cases:
  "(\<exists>f. v = Func f \<and> call_value v args c = Returned (emit (Called f args) c))
   \<or> (\<not> typeof_function v \<and> call_value v args c = Threw TypeError c)"
  by (cases v) simp_all

lemma invoke_calls:
  "calls_in (trace (state_of (invoke h response c))) \<le> calls_in (trace c) + 1"
proof (cases h)
  case (Direct v)
  then show ?thesis using call_value_calls by simp
next
  case (FetchAdapter hf)
  then show ?thesis using call_value_calls
    by (auto split: sum.splits)
next
  case (AckAdapter a hf hu)
  show ?thesis
  proof (cases "unpack response")
    case (Inl e)
    with AckAdapter show ?thesis by simp
  next
    case (Inr p)
    obtain err r0 where p: "p = (err, r0)" by (cases p)
    from call_value_cases[of hf "[err, r0]" c] AckAdapter Inr p show ?thesis
      by (auto simp: calls_in_def emit_def)
  qed
qed

lemma invoke_changes:
  assumes "handler_map (state_of (invoke h response c)) k \<noteq> handler_map c k"
  shows "\<exists>a hf hu. h = AckAdapter a hf hu \<and> k = topic_key a \<and> truthy hu
     \<and> handler_map (state_of (invoke h response c)) k = Some (Direct hu)"
proof (cases h)
  case (Direct v)
  with assms show ?thesis by (cases v) (simp_all add: emit_def)
next
  case (FetchAdapter hf)
  with assms show ?thesis by (cases hf) (auto simp: emit_def split: sum.splits)
next
  case (AckAdapter a hf hu)
  with assms show ?thesis
    by (cases hf) (auto simp: emit_def split: sum.splits if_splits)
qed

lemma route_own:
  "json_parse rt d = Some response \<Longrightarrow> correlation_key response = Inr k \<Longrightarrow>
   handler_map c k = Some h \<Longrightarrow> truthy_handler h \<Longrightarrow>
   private_on_message rt d c = invoke h response (on_message d c)"
  by (simp add: private_on_message_def lookup_def on_message_def emit_def Let_def)

lemma route_absent:
  "json_parse rt d = Some response \<Longrightarrow> correlation_key response = Inr k \<Longrightarrow>
   handler_map c k = None \<Longrightarrow> k \<notin> set object_prototype_keys \<Longrightarrow>
   private_on_message rt d c =
     Returned (c\<lparr>trace := trace c @ [Observed d, Logged ''Handler not found'']\<rparr>)"
  by (simp add: private_on_message_def lookup_def on_message_def console_log_def emit_def Let_def)

lemma route_calls:
  "calls_in (trace (state_of (private_on_message rt d c))) \<le> calls_in (trace c) + 1"
proof -
  have o: "calls_in (trace (on_message d c)) = calls_in (trace c)"
    by (simp add: on_message_def emit_def calls_in_def)
  have l: "calls_in (trace (console_log s (on_message d c))) = calls_in (trace c)" for s
    by (simp add: on_message_def console_log_def emit_def calls_in_def)
  show ?thesis
    unfolding private_on_message_def Let_def
    using invoke_calls[of _ _ "on_message d c"] o l
    by (auto split: option.splits sum.splits slot.splits)
qed

lemma route_map_cases:
  "handler_map (state_of (private_on_message rt d c)) = handler_map c
   \<or> (\<exists>h response. private_on_message rt d c = invoke h response (on_message d c))"
  unfolding private_on_message_def Let_def
  by (auto simp: on_message_def console_log_def emit_def
      split: option.splits sum.splits slot.splits)

lemma update_frame_key:
  assumes "loose_eq_update (map_of kvs ''name'') = Inr True"
    and "correlation_key (JObj kvs) = Inr k"
  shows "prefix ''update.'' k"
  using assms by (auto simp: correlation_key_def split: sum.splits)

lemma numeric_frame_key:
  assumes "loose_eq_update (map_of kvs ''name'') = Inr False"
    and "map_of kvs ''id'' = Some (JNum n)"
  shows "correlation_key (JObj kvs) = Inr (number_to_string n)"
  using assms by (simp add: correlation_key_def)

subsection \<open>The table stays well keyed\<close>

lemma keyed_table_update:
  "keyed_table m \<Longrightarrow> well_keyed k h \<Longrightarrow> keyed_table (m(k \<mapsto> h))"
  by (simp add: keyed_table_def)

lemma make_request_keyed:
  assumes "keyed_table (handler_map c)" and "unit_draw u"
  shows "keyed_table (handler_map (state_of (make_request rt cmd ps h u c)))"
proof (cases "is_function h")
  case True
  then have "well_keyed (number_to_string (random_integer u)) h"
    using assms(2) by (simp add: well_keyed_def request_key_of_draw)
  with True assms(1) show ?thesis by (simp add: make_request_ok keyed_table_update)
next
  case False
  with assms(1) show ?thesis by (simp add: make_request_rejects)
qed

lemma fetch_with_keyed:
  assumes "keyed_table (handler_map c)" and "unit_draw u"
  shows "keyed_table (handler_map (state_of (fetch_with rt cmd ps hf u c)))"
  using assms
  by (cases "typeof_function hf") (simp_all add: fetch_with_ok fetch_with_rejects make_request_keyed)

lemma invoke_keyed:
  assumes "keyed_table (handler_map c)"
  shows "keyed_table (handler_map (state_of (invoke h response c)))"
  unfolding keyed_table_def
proof (intro allI impI)
  fix k h'
  assume s: "handler_map (state_of (invoke h response c)) k = Some h'"
  show "well_keyed k h'"
  proof (cases "handler_map (state_of (invoke h response c)) k = handler_map c k")
    case True
    with s assms show ?thesis by (simp add: keyed_table_def)
  next
    case False
    from invoke_changes[OF False] s show ?thesis
      by (auto simp: well_keyed_def topic_key_prefix)
  qed
qed

lemma route_keyed:
  assumes "keyed_table (handler_map c)"
  shows "keyed_table (handler_map (state_of (private_on_message rt d c)))"
proof -
  have "keyed_table (handler_map (on_message d c))"
    using assms by (simp add: on_message_def emit_def)
  then show ?thesis
    using route_map_cases[of rt d c] assms invoke_keyed by auto
qed

lemma step_keyed:
  assumes "keyed_table (handler_map c)"
    and "case draw_of x of None \<Rightarrow> True | Some u \<Rightarrow> unit_draw u"
  shows "keyed_table (handler_map (state_of (step rt x c)))"
  using assms
  by (cases x) (simp_all add: wrapper_defs make_request_keyed fetch_with_keyed route_keyed)

lemma run_keyed:
  "keyed_table (handler_map c) \<Longrightarrow> draws_ok calls \<Longrightarrow>
   keyed_table (handler_map (run rt calls c))"
proof (induction calls arbitrary: c)
  case Nil
  then show ?case by simp
next
  case (Cons x xs)
  from Cons.prems have "keyed_table (handler_map (state_of (step rt x c)))"
    by (intro step_keyed) simp_all
  with Cons show ?case by simp
qed

subsection \<open>What subscribe and renew store, and what changes a topic key\<close>


lemma renew_ok:
  "renew rt a hf hu u c =
     Returned \<lparr>handler_map =
         (handler_map c)(number_to_string (random_integer u) \<mapsto> AckAdapter a hf hu),
       trace = trace c @ [Sent (json_stringify rt
         \<lparr>req_id = random_integer u, command = ''renew_address'',
          params = [Data (JStr a)]\<rparr>)]\<rparr>"
  by (simp add: renew_def make_request_ok)








section \<open>The claims\<close>

subsection \<open>C1: a frame that is not JSON\<close>

text \<open>
  C1, as the code has it. \<open>_on_message\<close> calls \<open>JSON.parse\<close> outside any
  \<open>try\<close>: for every frame whose data does not parse, the hook \<open>on_message\<close> sees
  the frame and then the SyntaxError propagates to the caller of \<open>_on_message\<close>. No
  callback fires, nothing is logged and \<open>handler_map\<close> is unchanged: the only
  effect is the observation of the frame.
\<close>

theorem malformed_frame_propagates:
  assumes "json_parse rt data = None"
  shows "private_on_message rt data c
     = Threw SyntaxError (c\<lparr>trace := trace c @ [Observed data]\<rparr>)"
  using assms by (simp add: private_on_message_def on_message_def emit_def)

theorem malformed_frame_propagates_witness:
  "json_parse scenario_rt frame_malformed = None
   \<and> private_on_message scenario_rt frame_malformed
       \<lparr>handler_map = [''7'' \<mapsto> FetchAdapter (Func ''handle_fetch'')],
        trace = [Sent frame_height_request]\<rparr>
     = Threw SyntaxError
         \<lparr>handler_map = [''7'' \<mapsto> FetchAdapter (Func ''handle_fetch'')],
          trace = [Sent frame_height_request, Observed frame_malformed]\<rparr>"
proof -
  have h: "json_parse scenario_rt frame_malformed = None"
    by (rule scenario_parsed)
  show ?thesis using h malformed_frame_propagates [OF h] by simp
qed

text \<open>
  The claim as stated asks for a normal completion and a logged failure. On the frame
  \<open>{oops\<close> the call does not complete normally and the trace holds no log line.
\<close>

theorem malformed_frame_counterexample:
  "\<not> completes_normally (private_on_message scenario_rt frame_malformed init_client)
   \<and> trace (state_of (private_on_message scenario_rt frame_malformed init_client))
     = [Observed frame_malformed]"
  by (simp add: private_on_message_def on_message_def emit_def scenario_parsed init_client_def)

subsection \<open>C2: callbacks that are not functions\<close>

text \<open>
  \<open>make_request\<close> and the \<open>fetch_*\<close> wrappers check the callback first: with a
  value that is not a function they throw before anything is sent or stored.
\<close>

lemma checked_dispatch_rejects:
  assumes "\<not> typeof_function hf"
  shows "make_request rt cmd ps (Direct hf) u c = Threw ParameterIsNotAFunction c"
    and "fetch_last_height rt hf u c = Threw ParameterIsNotAFunction c"
    and "fetch_transaction rt x hf u c = Threw ParameterIsNotAFunction c"
    and "fetch_history rt x hf u c = Threw ParameterIsNotAFunction c"
    and "fetch_block_header rt x hf u c = Threw ParameterIsNotAFunction c"
    and "fetch_block_transaction_hashes rt x hf u c = Threw ParameterIsNotAFunction c"
    and "fetch_spend rt x hf u c = Threw ParameterIsNotAFunction c"
  using assms by (simp_all add: wrapper_defs make_request_rejects fetch_with_rejects)

text \<open>
  C2, the code at \<open>subscribe("abc", undefined, undefined)\<close> and at the same call of
  \<open>renew\<close>. Neither checks \<open>handle_fetch\<close>; \<open>make_request\<close> checks the closure
  built around it, which is a function. The call returns normally, the frame is sent
  and the closure is stored; the failure comes when the acknowledgement is routed, as
  a TypeError out of \<open>_on_message\<close>.
\<close>

theorem subscribe_unchecked_callback:
  "subscribe scenario_rt ''abc'' Undefined Undefined draw8 init_client
     = Returned \<lparr>handler_map = [''8'' \<mapsto> AckAdapter ''abc'' Undefined Undefined],
         trace = [Sent frame_subscribe_request]\<rparr>
   \<and> renew scenario_rt ''abc'' Undefined Undefined draw8 init_client
     = Returned \<lparr>handler_map = [''8'' \<mapsto> AckAdapter ''abc'' Undefined Undefined],
         trace = [Sent frame_renew_request]\<rparr>
   \<and> private_on_message scenario_rt frame_ack
       \<lparr>handler_map = [''8'' \<mapsto> AckAdapter ''abc'' Undefined Undefined],
        trace = [Sent frame_subscribe_request]\<rparr>
     = Threw TypeError
         \<lparr>handler_map = [''8'' \<mapsto> AckAdapter ''abc'' Undefined Undefined],
          trace = [Sent frame_subscribe_request, Observed frame_ack]\<rparr>"
proof -
  let ?c = "\<lparr>handler_map = [''8'' \<mapsto> AckAdapter ''abc'' Undefined Undefined],
      trace = [Sent frame_subscribe_request]\<rparr>"
  have s: "subscribe scenario_rt ''abc'' Undefined Undefined draw8 init_client = Returned ?c"
    by (simp add: subscribe_def make_request_ok scenario_draws scenario_sent init_client_def)
  have r: "renew scenario_rt ''abc'' Undefined Undefined draw8 init_client
     = Returned \<lparr>handler_map = [''8'' \<mapsto> AckAdapter ''abc'' Undefined Undefined],
         trace = [Sent frame_renew_request]\<rparr>"
    by (simp add: renew_def make_request_ok scenario_draws scenario_sent init_client_def)
  have "private_on_message scenario_rt frame_ack ?c
      = invoke (AckAdapter ''abc'' Undefined Undefined) json_ack (on_message frame_ack ?c)"
    by (rule route_own[where k = "''8''"]) (simp_all add: scenario_parsed scenario_keys)
  also have "\<dots> = Threw TypeError (on_message frame_ack ?c)"
    by (simp add: unpack_def json_ack_def)
  finally show ?thesis using s r by (simp add: on_message_def emit_def)
qed

subsection \<open>C3: the order of send and registration\<close>

text \<open>
  C3, as the code has it. A successful \<open>make_request\<close> hands the frame to the
  websocket first and stores the handler under the id in the statement that follows,
  within the same call: the states of the call are the one before, the one with the
  frame sent and the table untouched, and the one with the handler stored. The call
  returns the last of them, and a reply routed to that state under the id of the
  request reaches the handler.
\<close>

theorem registration_follows_send:
  assumes "is_function h"
  shows "run_states (make_request_body rt cmd ps h u) c
     = [c,
        c\<lparr>trace := trace c @ [Sent (json_stringify rt
             \<lparr>req_id = random_integer u, command = cmd, params = ps\<rparr>)]\<rparr>,
        \<lparr>handler_map = (handler_map c)(number_to_string (random_integer u) \<mapsto> h),
         trace = trace c @ [Sent (json_stringify rt
           \<lparr>req_id = random_integer u, command = cmd, params = ps\<rparr>)]\<rparr>]
   \<and> make_request rt cmd ps h u c
     = Returned \<lparr>handler_map = (handler_map c)(number_to_string (random_integer u) \<mapsto> h),
         trace = trace c @ [Sent (json_stringify rt
           \<lparr>req_id = random_integer u, command = cmd, params = ps\<rparr>)]\<rparr>
   \<and> (\<forall>d response. json_parse rt d = Some response
          \<and> correlation_key response = Inr (number_to_string (random_integer u))
        \<longrightarrow> private_on_message rt d (state_of (make_request rt cmd ps h u c))
            = invoke h response (on_message d (state_of (make_request rt cmd ps h u c))))"
proof -
  let ?k = "number_to_string (random_integer u)"
  have s: "run_states (make_request_body rt cmd ps h u) c
     = [c,
        c\<lparr>trace := trace c @ [Sent (json_stringify rt
             \<lparr>req_id = random_integer u, command = cmd, params = ps\<rparr>)]\<rparr>,
        \<lparr>handler_map = (handler_map c)(?k \<mapsto> h),
         trace = trace c @ [Sent (json_stringify rt
           \<lparr>req_id = random_integer u, command = cmd, params = ps\<rparr>)]\<rparr>]"
    by (simp add: make_request_body_def emit_def Let_def)
  have m: "make_request rt cmd ps h u c
     = Returned \<lparr>handler_map = (handler_map c)(?k \<mapsto> h),
         trace = trace c @ [Sent (json_stringify rt
           \<lparr>req_id = random_integer u, command = cmd, params = ps\<rparr>)]\<rparr>"
    using assms by (rule make_request_ok)
  have r: "private_on_message rt d (state_of (make_request rt cmd ps h u c))
      = invoke h response (on_message d (state_of (make_request rt cmd ps h u c)))"
    if "json_parse rt d = Some response" and "correlation_key response = Inr ?k" for d response
    using that assms by (intro route_own[where k = ?k]) (simp_all add: m is_function_truthy)
  from s m r show ?thesis by blast
qed

theorem registration_follows_send_witness:
  "is_function (Direct (Func ''handler''))
   \<and> make_request scenario_rt ''fetch_last_height'' [] (Direct (Func ''handler'')) draw7
       init_client
     = Returned \<lparr>handler_map = [''7'' \<mapsto> Direct (Func ''handler'')],
         trace = [Sent frame_height_request]\<rparr>
   \<and> private_on_message scenario_rt frame_height_reply
       \<lparr>handler_map = [''7'' \<mapsto> Direct (Func ''handler'')],
        trace = [Sent frame_height_request]\<rparr>
     = Returned \<lparr>handler_map = [''7'' \<mapsto> Direct (Func ''handler'')],
         trace = [Sent frame_height_request, Observed frame_height_reply,
           Called ''handler'' [Data json_height_reply]]\<rparr>"
proof -
  have h: "is_function (Direct (Func ''handler''))" by simp
  note t = registration_follows_send
    [OF h, of scenario_rt "''fetch_last_height''" "[]" draw7 init_client]
  from t have m: "make_request scenario_rt ''fetch_last_height'' [] (Direct (Func ''handler''))
       draw7 init_client
     = Returned \<lparr>handler_map = [''7'' \<mapsto> Direct (Func ''handler'')],
         trace = [Sent frame_height_request]\<rparr>"
    by (simp add: scenario_draws scenario_sent init_client_def)
  have p: "json_parse scenario_rt frame_height_reply = Some json_height_reply
      \<and> correlation_key json_height_reply = Inr (number_to_string (random_integer draw7))"
    by (simp add: scenario_parsed scenario_keys scenario_draws)
  from t p have "private_on_message scenario_rt frame_height_reply
       (state_of (make_request scenario_rt ''fetch_last_height'' []
          (Direct (Func ''handler'')) draw7 init_client))
     = invoke (Direct (Func ''handler'')) json_height_reply
         (on_message frame_height_reply
           (state_of (make_request scenario_rt ''fetch_last_height'' []
              (Direct (Func ''handler'')) draw7 init_client)))"
    by blast
  with m h show ?thesis by (simp add: on_message_def emit_def)
qed

text \<open>
  The claim as stated rules out a step at which the request is sent and the id is not
  registered. The second state of the call is such a step.
\<close>

theorem send_precedes_registration_counterexample:
  "trace (run_states (make_request_body scenario_rt ''fetch_last_height'' []
       (Direct (Func ''handler'')) draw7) init_client ! 1)
     = [Sent frame_height_request]
   \<and> handler_map (run_states (make_request_body scenario_rt ''fetch_last_height'' []
       (Direct (Func ''handler'')) draw7) init_client ! 1) ''7'' = None"
  by (simp add: make_request_body_def emit_def Let_def scenario_draws scenario_sent
      init_client_def)

subsection \<open>C4: routing a parsed frame\<close>

text \<open>
  C4, as the code has it. For every frame that parses and from which a key can be
  derived (the frame is not \<open>null\<close> and no coercion of \<open>id\<close>, \<open>name\<close> or
  \<open>address\<close> throws), the key is \<open>"update." + address\<close> when
  \<open>name == "update"\<close> and the property key of \<open>id\<close> otherwise. When the table
  has no entry under the key and the key is not a member of \<open>Object.prototype\<close>,
  no callback fires, \<open>Handler not found\<close> is logged and the call returns normally.
  When the table has a truthy entry under the key, that entry and no other is invoked
  with the parsed frame; a function of the caller stored there is called once. No
  frame makes more than one call.
\<close>

theorem route_parsed_frame:
  assumes "json_parse rt d = Some response" and "correlation_key response = Inr k"
  shows "(handler_map c k = None \<and> k \<notin> set object_prototype_keys \<longrightarrow>
            private_on_message rt d c =
              Returned (c\<lparr>trace := trace c @ [Observed d, Logged ''Handler not found'']\<rparr>))
       \<and> (\<forall>f. handler_map c k = Some (Direct (Func f)) \<longrightarrow>
            private_on_message rt d c =
              Returned (c\<lparr>trace := trace c @ [Observed d, Called f [Data response]]\<rparr>))
       \<and> (\<forall>h. handler_map c k = Some h \<and> truthy_handler h \<longrightarrow>
            private_on_message rt d c = invoke h response (on_message d c))
       \<and> calls_in (trace (state_of (private_on_message rt d c))) \<le> calls_in (trace c) + 1
       \<and> (\<forall>kvs a. response = JObj kvs \<and> map_of kvs ''name'' = Some (JStr ''update'')
              \<and> map_of kvs ''address'' = Some (JStr a) \<longrightarrow> k = topic_key a)
       \<and> (\<forall>kvs. response = JObj kvs \<and> loose_eq_update (map_of kvs ''name'') = Inr False
              \<longrightarrow> property_key (map_of kvs ''id'') = Inr k)"
proof (intro conjI allI impI)
  assume "handler_map c k = None \<and> k \<notin> set object_prototype_keys"
  with assms show "private_on_message rt d c =
      Returned (c\<lparr>trace := trace c @ [Observed d, Logged ''Handler not found'']\<rparr>)"
    by (simp add: route_absent)
next
  fix f assume "handler_map c k = Some (Direct (Func f))"
  with assms have "private_on_message rt d c
      = invoke (Direct (Func f)) response (on_message d c)"
    by (intro route_own[where k = k]) simp_all
  then show "private_on_message rt d c =
      Returned (c\<lparr>trace := trace c @ [Observed d, Called f [Data response]]\<rparr>)"
    by (simp add: on_message_def emit_def)
next
  fix h assume "handler_map c k = Some h \<and> truthy_handler h"
  with assms show "private_on_message rt d c = invoke h response (on_message d c)"
    by (intro route_own[where k = k]) simp_all
next
  show "calls_in (trace (state_of (private_on_message rt d c))) \<le> calls_in (trace c) + 1"
    by (rule route_calls)
next
  fix kvs a
  assume "response = JObj kvs \<and> map_of kvs ''name'' = Some (JStr ''update'')
     \<and> map_of kvs ''address'' = Some (JStr a)"
  with assms(2) show "k = topic_key a"
    by (simp add: correlation_key_def topic_key_def)
next
  fix kvs
  assume "response = JObj kvs \<and> loose_eq_update (map_of kvs ''name'') = Inr False"
  with assms(2) show "property_key (map_of kvs ''id'') = Inr k"
    by (simp add: correlation_key_def)
qed

theorem route_parsed_frame_witness:
  "json_parse scenario_rt frame_update_abc = Some json_update_abc
   \<and> correlation_key json_update_abc = Inr ''update.abc''
   \<and> private_on_message scenario_rt frame_update_abc init_client
     = Returned \<lparr>handler_map = Map.empty,
         trace = [Observed frame_update_abc, Logged ''Handler not found'']\<rparr>
   \<and> private_on_message scenario_rt frame_update_abc
       \<lparr>handler_map = [''update.abc'' \<mapsto> Direct (Func ''handle_update'')], trace = []\<rparr>
     = Returned \<lparr>handler_map = [''update.abc'' \<mapsto> Direct (Func ''handle_update'')],
         trace = [Observed frame_update_abc,
           Called ''handle_update'' [Data json_update_abc]]\<rparr>"
proof -
  have p: "json_parse scenario_rt frame_update_abc = Some json_update_abc"
    by (rule scenario_parsed)
  have k: "correlation_key json_update_abc = Inr ''update.abc''"
    by (rule scenario_keys)
  have n: "''update.abc'' \<notin> set object_prototype_keys"
    by (simp add: object_prototype_keys_def)
  show ?thesis
    using p k n route_parsed_frame [OF p k, of init_client]
      route_parsed_frame [OF p k,
        of "\<lparr>handler_map = [''update.abc'' \<mapsto> Direct (Func ''handle_update'')], trace = []\<rparr>"]
    by (simp add: init_client_def topic_key_def)
qed

text \<open>
  The claim as stated covers every frame that parses. The frame \<open>null\<close> parses, and
  reading \<open>response.id\<close> from it throws a TypeError: no key is derived, nothing is
  reported and the failure propagates.
\<close>

theorem null_frame_counterexample:
  "json_parse scenario_rt frame_null = Some JNull
   \<and> private_on_message scenario_rt frame_null init_client
     = Threw TypeError \<lparr>handler_map = Map.empty, trace = [Observed frame_null]\<rparr>"
  by (simp add: private_on_message_def on_message_def emit_def scenario_parsed scenario_keys
      init_client_def)

subsection \<open>C5: one callback per key, the last registration wins\<close>



subsection \<open>C6: the update handler is registered by the acknowledgement\<close>




subsection \<open>C7: renewing without an update handler\<close>

text \<open>
  C7. A call of \<open>renew\<close> with \<open>handle_update\<close> left out (\<open>undefined\<close>) sends its
  request and stores, under the id it drew, the closure that captures \<open>address\<close>,
  \<open>handle_fetch\<close> and the missing \<open>handle_update\<close>; the entry under
  \<open>"update." + address\<close> is as before the call. Routing the acknowledgement to
  the state the call returned leaves the table as the call left it, so the entry
  under the topic key after call and acknowledgement is the one before the call: a
  handler registered earlier is neither replaced nor cleared, and none appears where
  there was none. With a function \<open>handle_fetch\<close> and arguments that can be read
  off the frame, the acknowledgement calls \<open>handle_fetch\<close> with them. The closure
  leaves the table alone on every frame, whether or not \<open>handle_fetch\<close> can be
  called.
\<close>

theorem renew_without_update_keeps_handler:
  "renew rt a hf Undefined u c
     = Returned \<lparr>handler_map =
           (handler_map c)(number_to_string (random_integer u) \<mapsto> AckAdapter a hf Undefined),
         trace = trace c @ [Sent (json_stringify rt
           \<lparr>req_id = random_integer u, command = ''renew_address'',
            params = [Data (JStr a)]\<rparr>)]\<rparr>
   \<and> handler_map (state_of (renew rt a hf Undefined u c)) (topic_key a)
     = handler_map c (topic_key a)
   \<and> (json_parse rt d = Some response
        \<and> correlation_key response = Inr (number_to_string (random_integer u)) \<longrightarrow>
        handler_map (state_of (private_on_message rt d (state_of (renew rt a hf Undefined u c))))
          = handler_map (state_of (renew rt a hf Undefined u c))
        \<and> handler_map (run rt [Renew a hf Undefined u, Frame d] c) (topic_key a)
          = handler_map c (topic_key a))
   \<and> (json_parse rt d = Some response
        \<and> correlation_key response = Inr (number_to_string (random_integer u))
        \<and> unpack response = Inr (err, res) \<longrightarrow>
        private_on_message rt d (state_of (renew rt a (Func f) Undefined u c))
          = Returned \<lparr>handler_map =
                (handler_map c)(number_to_string (random_integer u)
                  \<mapsto> AckAdapter a (Func f) Undefined),
              trace = trace c @ [Sent (json_stringify rt
                  \<lparr>req_id = random_integer u, command = ''renew_address'',
                   params = [Data (JStr a)]\<rparr>),
                Observed d, Called f [err, res]]\<rparr>)
   \<and> handler_map (state_of (invoke (AckAdapter a hf Undefined) response st)) = handler_map st
   \<and> (json_parse rt d = Some response \<and> correlation_key response = Inr rk
        \<and> handler_map st rk = Some (AckAdapter a hf Undefined)
      \<longrightarrow> handler_map (state_of (private_on_message rt d st)) = handler_map st)"
proof -
  let ?k = "number_to_string (random_integer u)"
  have i: "handler_map (state_of (invoke (AckAdapter a hf Undefined) response st))
      = handler_map st" for st hf
    by (cases hf) (auto simp: emit_def split: sum.splits)
  have j: "handler_map (state_of (private_on_message rt d st)) = handler_map st"
    if "json_parse rt d = Some response" and "correlation_key response = Inr rk"
      and "handler_map st rk = Some (AckAdapter a hf Undefined)" for st rk hf
  proof -
    have "private_on_message rt d st
        = invoke (AckAdapter a hf Undefined) response (on_message d st)"
      using that by (intro route_own[where k = rk]) simp_all
    then show ?thesis
      using i[of hf "on_message d st"] by (simp add: on_message_def emit_def)
  qed
  have t: "handler_map (state_of (renew rt a hf Undefined u c)) (topic_key a)
      = handler_map c (topic_key a)"
    by (simp add: renew_def make_request_topic_unchanged topic_key_prefix)
  have s: "handler_map (state_of (renew rt a hf Undefined u c)) ?k
      = Some (AckAdapter a hf Undefined)"
    by (simp add: renew_ok)
  have e: "handler_map (state_of (private_on_message rt d
        (state_of (renew rt a hf Undefined u c))))
      = handler_map (state_of (renew rt a hf Undefined u c))"
    if "json_parse rt d = Some response" and "correlation_key response = Inr ?k"
    using that s by (rule j)
  have r: "handler_map (run rt [Renew a hf Undefined u, Frame d] c) (topic_key a)
      = handler_map c (topic_key a)"
    if "json_parse rt d = Some response" and "correlation_key response = Inr ?k"
    using e[OF that] t by simp
  have g: "private_on_message rt d (state_of (renew rt a (Func f) Undefined u c))
      = Returned \<lparr>handler_map = (handler_map c)(?k \<mapsto> AckAdapter a (Func f) Undefined),
          trace = trace c @ [Sent (json_stringify rt
              \<lparr>req_id = random_integer u, command = ''renew_address'',
               params = [Data (JStr a)]\<rparr>),
            Observed d, Called f [err, res]]\<rparr>"
    if "json_parse rt d = Some response" and "correlation_key response = Inr ?k"
      and "unpack response = Inr (err, res)"
  proof -
    let ?st = "state_of (renew rt a (Func f) Undefined u c)"
    have "private_on_message rt d ?st
        = invoke (AckAdapter a (Func f) Undefined) response (on_message d ?st)"
      using that(1,2) by (intro route_own[where k = ?k]) (simp_all add: renew_ok)
    then show ?thesis
      using that(3) by (simp add: renew_ok on_message_def emit_def)
  qed
  have k: "handler_map (state_of (private_on_message rt d st)) = handler_map st"
    if "json_parse rt d = Some response \<and> correlation_key response = Inr rk
        \<and> handler_map st rk = Some (AckAdapter a hf Undefined)"
    using that j[where st = st and rk = rk and hf = hf] by blast
  have o: "renew rt a hf Undefined u c
     = Returned \<lparr>handler_map = (handler_map c)(?k \<mapsto> AckAdapter a hf Undefined),
         trace = trace c @ [Sent (json_stringify rt
           \<lparr>req_id = random_integer u, command = ''renew_address'',
            params = [Data (JStr a)]\<rparr>)]\<rparr>"
    by (rule renew_ok)
  have i': "handler_map (state_of (invoke (AckAdapter a hf Undefined) response st))
      = handler_map st"
    by (rule i)
  from o t e r g i' k show ?thesis by blast
qed

theorem renew_without_update_keeps_handler_witness:
  "json_parse scenario_rt frame_ack = Some json_ack
   \<and> correlation_key json_ack = Inr ''8''
   \<and> unpack json_ack = Inr (Data JNull, Data (JBool True))
   \<and> renew scenario_rt ''abc'' (Func ''handle_fetch'') Undefined draw8
       \<lparr>handler_map = [''update.abc'' \<mapsto> Direct (Func ''older'')], trace = []\<rparr>
     = Returned \<lparr>handler_map = [''update.abc'' \<mapsto> Direct (Func ''older''),
           ''8'' \<mapsto> AckAdapter ''abc'' (Func ''handle_fetch'') Undefined],
         trace = [Sent frame_renew_request]\<rparr>
   \<and> private_on_message scenario_rt frame_ack
       (state_of (renew scenario_rt ''abc'' (Func ''handle_fetch'') Undefined draw8
          \<lparr>handler_map = [''update.abc'' \<mapsto> Direct (Func ''older'')], trace = []\<rparr>))
     = Returned \<lparr>handler_map = [''update.abc'' \<mapsto> Direct (Func ''older''),
           ''8'' \<mapsto> AckAdapter ''abc'' (Func ''handle_fetch'') Undefined],
         trace = [Sent frame_renew_request, Observed frame_ack,
           Called ''handle_fetch'' [Data JNull, Data (JBool True)]]\<rparr>
   \<and> handler_map (run scenario_rt
         [Renew ''abc'' (Func ''handle_fetch'') Undefined draw8, Frame frame_ack]
         \<lparr>handler_map = [''update.abc'' \<mapsto> Direct (Func ''older'')], trace = []\<rparr>)
       ''update.abc''
     = Some (Direct (Func ''older''))"
proof -
  let ?c = "\<lparr>handler_map = [''update.abc'' \<mapsto> Direct (Func ''older'')], trace = []\<rparr>"
  have unp: "unpack json_ack = Inr (Data JNull, Data (JBool True))"
    by (simp add: unpack_def json_ack_def)
  have pk: "json_parse scenario_rt frame_ack = Some json_ack
      \<and> correlation_key json_ack = Inr (number_to_string (random_integer draw8))"
    by (simp add: scenario_parsed scenario_keys scenario_draws)
  note t = renew_without_update_keeps_handler
    [where rt = scenario_rt and a = "''abc''" and hf = "Func ''handle_fetch''"
       and f = "''handle_fetch''" and u = draw8 and c = ?c and d = frame_ack
       and response = json_ack and err = "Data JNull" and res = "Data (JBool True)"
       and st = ?c and rk = "''8''"]
  from t [THEN conjunct1]
  have s: "renew scenario_rt ''abc'' (Func ''handle_fetch'') Undefined draw8 ?c
     = Returned \<lparr>handler_map = [''update.abc'' \<mapsto> Direct (Func ''older''),
           ''8'' \<mapsto> AckAdapter ''abc'' (Func ''handle_fetch'') Undefined],
         trace = [Sent frame_renew_request]\<rparr>"
    by (simp add: scenario_draws scenario_sent)
  from t [THEN conjunct2, THEN conjunct2, THEN conjunct2, THEN conjunct1] pk unp
  have "private_on_message scenario_rt frame_ack
       (state_of (renew scenario_rt ''abc'' (Func ''handle_fetch'') Undefined draw8 ?c))
     = Returned \<lparr>handler_map =
           (handler_map ?c)(number_to_string (random_integer draw8)
              \<mapsto> AckAdapter ''abc'' (Func ''handle_fetch'') Undefined),
         trace = trace ?c @ [Sent (json_stringify scenario_rt
             \<lparr>req_id = random_integer draw8, command = ''renew_address'',
              params = [Data (JStr ''abc'')]\<rparr>),
           Observed frame_ack, Called ''handle_fetch'' [Data JNull, Data (JBool True)]]\<rparr>"
    by blast
  then have r: "private_on_message scenario_rt frame_ack
       (state_of (renew scenario_rt ''abc'' (Func ''handle_fetch'') Undefined draw8 ?c))
     = Returned \<lparr>handler_map = [''update.abc'' \<mapsto> Direct (Func ''older''),
           ''8'' \<mapsto> AckAdapter ''abc'' (Func ''handle_fetch'') Undefined],
         trace = [Sent frame_renew_request, Observed frame_ack,
           Called ''handle_fetch'' [Data JNull, Data (JBool True)]]\<rparr>"
    by (simp add: scenario_draws scenario_sent)
  from t [THEN conjunct2, THEN conjunct2, THEN conjunct1] pk
  have k: "handler_map (run scenario_rt
         [Renew ''abc'' (Func ''handle_fetch'') Undefined draw8, Frame frame_ack] ?c)
       (topic_key ''abc'') = handler_map ?c (topic_key ''abc'')"
    by blast
  from s r k unp show ?thesis
    by (simp add: scenario_parsed scenario_keys topic_key_def)
qed

subsection \<open>C8: fetch_last_height and its reply\<close>

text \<open>
  C8. With a function \<open>handle_fetch\<close> and the id \<open>i\<close> drawn by
  \<open>_random_integer\<close>, \<open>fetch_last_height\<close> returns normally, hands the websocket
  exactly one frame, the serialization of
  \<open>{"id": i, "command": "fetch_last_height", "params": []}\<close>, and stores its adapter
  under \<open>i\<close>. Routing a reply \<open>{"id": i, "error": e, "result": [v, ...]}\<close> to the
  resulting state calls \<open>handle_fetch\<close> once, with \<open>(e, v)\<close>. In the scenario of
  the specification the id is 7 and the call is \<open>handle_fetch(null, 12345)\<close>.
\<close>

theorem fetch_last_height_round_trip:
  assumes "unit_draw u"
    and "json_parse rt d = Some (JObj kvs)"
    and "map_of kvs ''id'' = Some (JNum (random_integer u))"
    and "map_of kvs ''name'' = None"
    and "map_of kvs ''error'' = Some e"
    and "map_of kvs ''result'' = Some (JArr (v # rest))"
  shows "fetch_last_height rt (Func f) u c
     = Returned \<lparr>handler_map =
           (handler_map c)(number_to_string (random_integer u) \<mapsto> FetchAdapter (Func f)),
         trace = trace c @ [Sent (json_stringify rt
           \<lparr>req_id = random_integer u, command = ''fetch_last_height'', params = []\<rparr>)]\<rparr>
   \<and> private_on_message rt d
       \<lparr>handler_map =
          (handler_map c)(number_to_string (random_integer u) \<mapsto> FetchAdapter (Func f)),
        trace = trace c @ [Sent (json_stringify rt
          \<lparr>req_id = random_integer u, command = ''fetch_last_height'', params = []\<rparr>)]\<rparr>
     = Returned \<lparr>handler_map =
           (handler_map c)(number_to_string (random_integer u) \<mapsto> FetchAdapter (Func f)),
         trace = trace c @ [Sent (json_stringify rt
             \<lparr>req_id = random_integer u, command = ''fetch_last_height'', params = []\<rparr>),
           Observed d, Called f [Data e, Data v]]\<rparr>"
proof -
  let ?k = "number_to_string (random_integer u)"
  let ?c1 = "\<lparr>handler_map = (handler_map c)(?k \<mapsto> FetchAdapter (Func f)),
      trace = trace c @ [Sent (json_stringify rt
        \<lparr>req_id = random_integer u, command = ''fetch_last_height'', params = []\<rparr>)]\<rparr>"
  have a: "fetch_last_height rt (Func f) u c = Returned ?c1"
    by (simp add: fetch_last_height_def fetch_with_ok make_request_ok)
  have k: "correlation_key (JObj kvs) = Inr ?k"
    using assms by (simp add: correlation_key_def)
  have "private_on_message rt d ?c1
      = invoke (FetchAdapter (Func f)) (JObj kvs) (on_message d ?c1)"
    using assms(2) k by (intro route_own[where k = ?k]) simp_all
  also have "\<dots> = Returned (?c1\<lparr>trace := trace ?c1 @ [Observed d, Called f [Data e, Data v]]\<rparr>)"
    using assms by (simp add: unpack_def on_message_def emit_def)
  finally show ?thesis using a by simp
qed

theorem fetch_last_height_round_trip_witness:
  "unit_draw draw7
   \<and> json_stringify scenario_rt \<lparr>req_id = 7, command = ''fetch_last_height'', params = []\<rparr>
     = frame_height_request
   \<and> fetch_last_height scenario_rt (Func ''handle_fetch'') draw7 init_client
     = Returned \<lparr>handler_map = [''7'' \<mapsto> FetchAdapter (Func ''handle_fetch'')],
         trace = [Sent frame_height_request]\<rparr>
   \<and> json_parse scenario_rt frame_height_reply
     = Some (JObj [(''id'', JNum 7), (''error'', JNull), (''result'', JArr [JNum 12345])])
   \<and> private_on_message scenario_rt frame_height_reply
       \<lparr>handler_map = [''7'' \<mapsto> FetchAdapter (Func ''handle_fetch'')],
        trace = [Sent frame_height_request]\<rparr>
     = Returned \<lparr>handler_map = [''7'' \<mapsto> FetchAdapter (Func ''handle_fetch'')],
         trace = [Sent frame_height_request, Observed frame_height_reply,
           Called ''handle_fetch'' [Data JNull, Data (JNum 12345)]]\<rparr>"
proof -
  let ?kvs = "[(''id'', JNum 7), (''error'', JNull), (''result'', JArr [JNum 12345])]"
  have u: "unit_draw draw7" by (rule scenario_draws)
  have p: "json_parse scenario_rt frame_height_reply = Some (JObj ?kvs)"
    using scenario_parsed(1) by (simp add: json_height_reply_def)
  have i: "map_of ?kvs ''id'' = Some (JNum (random_integer draw7))"
    by (simp add: scenario_draws)
  have n: "map_of ?kvs ''name'' = None" by simp
  have e: "map_of ?kvs ''error'' = Some JNull" by simp
  have r: "map_of ?kvs ''result'' = Some (JArr (JNum 12345 # []))" by simp
  from fetch_last_height_round_trip [OF u p i n e r, of "''handle_fetch''" init_client]
  show ?thesis using u p by (simp add: scenario_draws scenario_sent init_client_def)
qed

subsection \<open>C9: request keys and topic keys never meet\<close>

text \<open>
  C9. In every state the client reaches from the empty table, by any calls whose draws
  are values of \<open>Math.random()\<close> and any frames, every entry of the table is well
  keyed: a function under the decimal numeral of an integer in \<open>[0, 2^32)\<close>, or a
  truthy value stored as it came under a key that begins with \<open>update.\<close>. No key is
  of both kinds. \<open>make_request\<close> changes the table at request keys only, an invoked
  entry changes it at topic keys only. The key of a frame with \<open>name == "update"\<close>
  begins with \<open>update.\<close> and is no request key, so the entry it reaches was never
  stored by \<open>make_request\<close>; the key of a frame without that name and with a numeric
  id is the numeral of the id and does not begin with \<open>update.\<close>, so the entry it
  reaches is no update handler.
\<close>

theorem key_spaces_disjoint:
  assumes "draws_ok calls"
  shows "(\<forall>k h. handler_map (run rt calls init_client) k = Some h \<longrightarrow> well_keyed k h)
   \<and> (\<forall>k. \<not> (is_request_key k \<and> prefix ''update.'' k))
   \<and> (\<forall>cmd ps h u c k. unit_draw u
         \<and> handler_map (state_of (make_request rt cmd ps h u c)) k \<noteq> handler_map c k
       \<longrightarrow> is_request_key k)
   \<and> (\<forall>h response c k. handler_map (state_of (invoke h response c)) k \<noteq> handler_map c k
       \<longrightarrow> prefix ''update.'' k)
   \<and> (\<forall>kvs k. loose_eq_update (map_of kvs ''name'') = Inr True
         \<and> correlation_key (JObj kvs) = Inr k
       \<longrightarrow> prefix ''update.'' k \<and> \<not> is_request_key k)
   \<and> (\<forall>kvs n. loose_eq_update (map_of kvs ''name'') = Inr False
         \<and> map_of kvs ''id'' = Some (JNum n)
       \<longrightarrow> correlation_key (JObj kvs) = Inr (number_to_string n)
         \<and> \<not> prefix ''update.'' (number_to_string n))"
proof -
  have "keyed_table (handler_map init_client)"
    by (simp add: keyed_table_def init_client_def)
  then have "keyed_table (handler_map (run rt calls init_client))"
    using assms by (rule run_keyed)
  then have a: "\<forall>k h. handler_map (run rt calls init_client) k = Some h \<longrightarrow> well_keyed k h"
    by (simp add: keyed_table_def)
  have b: "\<forall>k. \<not> (is_request_key k \<and> prefix ''update.'' k)"
    using request_key_not_topic by blast
  have c: "\<forall>cmd ps h u c k. unit_draw u
         \<and> handler_map (state_of (make_request rt cmd ps h u c)) k \<noteq> handler_map c k
       \<longrightarrow> is_request_key k"
    using make_request_changes by blast
  have d: "\<forall>h response c k. handler_map (state_of (invoke h response c)) k \<noteq> handler_map c k
       \<longrightarrow> prefix ''update.'' k"
    using invoke_changes topic_key_prefix by blast
  have e: "\<forall>kvs k. loose_eq_update (map_of kvs ''name'') = Inr True
         \<and> correlation_key (JObj kvs) = Inr k
       \<longrightarrow> prefix ''update.'' k \<and> \<not> is_request_key k"
    using update_frame_key request_key_not_topic by blast
  have f: "\<forall>kvs n. loose_eq_update (map_of kvs ''name'') = Inr False
         \<and> map_of kvs ''id'' = Some (JNum n)
       \<longrightarrow> correlation_key (JObj kvs) = Inr (number_to_string n)
         \<and> \<not> prefix ''update.'' (number_to_string n)"
    using numeric_frame_key number_to_string_not_topic by blast
  from a b c d e f show ?thesis by blast
qed

lemma scenario_run:
  "run scenario_rt scenario_calls init_client =
     \<lparr>handler_map =
        [''8'' \<mapsto> AckAdapter ''abc'' (Func ''handle_fetch'') (Func ''handle_update''),
         ''update.abc'' \<mapsto> Direct (Func ''handle_update''),
         ''7'' \<mapsto> FetchAdapter (Func ''handle_height'')],
      trace = [Sent frame_subscribe_request, Observed frame_ack,
        Called ''handle_fetch'' [Data JNull, Data (JBool True)],
        Sent frame_height_request]\<rparr>"
proof -
  let ?h = "AckAdapter ''abc'' (Func ''handle_fetch'') (Func ''handle_update'')"
  let ?c1 = "\<lparr>handler_map = [''8'' \<mapsto> ?h], trace = [Sent frame_subscribe_request]\<rparr>"
  let ?c2 = "\<lparr>handler_map = [''8'' \<mapsto> ?h, ''update.abc'' \<mapsto> Direct (Func ''handle_update'')],
      trace = [Sent frame_subscribe_request, Observed frame_ack,
        Called ''handle_fetch'' [Data JNull, Data (JBool True)]]\<rparr>"
  have s1: "subscribe scenario_rt ''abc'' (Func ''handle_fetch'') (Func ''handle_update'') draw8
      init_client = Returned ?c1"
    by (simp add: subscribe_def make_request_ok scenario_draws scenario_sent init_client_def)
  have "private_on_message scenario_rt frame_ack ?c1
      = invoke ?h json_ack (on_message frame_ack ?c1)"
    by (rule route_own[where k = "''8''"]) (simp_all add: scenario_parsed scenario_keys)
  then have s2: "private_on_message scenario_rt frame_ack ?c1 = Returned ?c2"
    by (simp add: unpack_def json_ack_def on_message_def emit_def topic_key_def)
  have s3: "fetch_last_height scenario_rt (Func ''handle_height'') draw7 ?c2
      = Returned (?c2\<lparr>handler_map := (handler_map ?c2)(''7'' \<mapsto> FetchAdapter (Func ''handle_height'')),
          trace := trace ?c2 @ [Sent frame_height_request]\<rparr>)"
    by (simp add: fetch_last_height_def fetch_with_ok make_request_ok scenario_draws
        scenario_sent)
  show ?thesis
    by (simp add: scenario_calls_def s1 s2 s3)
qed

theorem key_spaces_disjoint_witness:
  "draws_ok scenario_calls
   \<and> handler_map (run scenario_rt scenario_calls init_client) ''update.abc''
       = Some (Direct (Func ''handle_update''))
   \<and> well_keyed ''update.abc'' (Direct (Func ''handle_update''))
   \<and> handler_map (run scenario_rt scenario_calls init_client) ''7''
       = Some (FetchAdapter (Func ''handle_height''))
   \<and> well_keyed ''7'' (FetchAdapter (Func ''handle_height''))
   \<and> \<not> is_request_key ''update.abc'' \<and> \<not> prefix ''update.'' ''7''"
proof -
  have d: "draws_ok scenario_calls"
    by (simp add: scenario_calls_def scenario_draws)
  have u: "handler_map (run scenario_rt scenario_calls init_client) ''update.abc''
       = Some (Direct (Func ''handle_update''))"
    and r: "handler_map (run scenario_rt scenario_calls init_client) ''7''
       = Some (FetchAdapter (Func ''handle_height''))"
    by (simp_all add: scenario_run)
  have p: "prefix ''update.'' ''update.abc''" and q: "\<not> prefix ''update.'' ''7''"
    by simp_all
  note t = key_spaces_disjoint [OF d, of scenario_rt]
  from t u have wu: "well_keyed ''update.abc'' (Direct (Func ''handle_update''))" by blast
  from t r have wr: "well_keyed ''7'' (FetchAdapter (Func ''handle_height''))" by blast
  from t p have n: "\<not> is_request_key ''update.abc''" by blast
  from d u wu r wr n q show ?thesis by simp
qed

subsection \<open>C10: what the adapters read from a reply\<close>




end

